theory Spec2Isabelle
  imports Complex_Main "HOL-Library.AList" "HOL-Library.Sublist"
begin

section \<open>JavaScript primitives used by the sources\<close>

text \<open>
  Strings are character lists. Numbers that hold clock readings, counters and lengths are
  integers; numbers that hold quotients (hit rate, score, alignment) are exact rationals,
  so the rounding error of IEEE doubles is not part of this model.
\<close>

text \<open>\<^verbatim>\<open>Array.prototype.join\<close>.\<close>

fun join :: "string \<Rightarrow> string list \<Rightarrow> string" where
  "join sep [] = []"
| "join sep [x] = x"
| "join sep (x # y # ys) = x @ sep @ join sep (y # ys)"

text \<open>\<^verbatim>\<open>String.prototype.includes\<close>: the argument occurs as a contiguous substring.\<close>

fun includesStr :: "string \<Rightarrow> string \<Rightarrow> bool" where
  "includesStr [] sub = (sub = [])"
| "includesStr (c # cs) sub = (prefix sub (c # cs) \<or> includesStr cs sub)"

text \<open>\<^verbatim>\<open>Number.prototype.toString\<close> on a non-negative integer.\<close>

fun toString :: "nat \<Rightarrow> string" where
  "toString n = (if n < 10 then [char_of (48 + n)]
                 else toString (n div 10) @ [char_of (48 + n mod 10)])"

declare toString.simps [simp del]

text \<open>\<^verbatim>\<open>Math.round\<close>: the nearest integer, halves rounded towards positive infinity.\<close>

definition Math_round :: "rat \<Rightarrow> int" where
  "Math_round x = \<lfloor>x + 1 / 2\<rfloor>"

section \<open>Cache store (\<^verbatim>\<open>lib/content-cache.ts\<close>)\<close>

record 'a CacheEntry =
  data :: 'a
  timestamp :: int
  expiresAt :: int
  accessCount :: nat
  lastAccessed :: int

datatype CacheType = type_content | type_quiz

datatype QuizType = mid | final

record CacheKey =
  type :: CacheType
  topicId :: string
  subtopicId :: string
  subjectId :: string
  gradeId :: string
  quizType :: "QuizType option"
  numCards :: "nat option"

record CacheStats =
  totalEntries :: nat
  memoryUsage :: int
  hitRate :: rat
  hits :: nat
  misses :: nat

text \<open>
  The class \<^verbatim>\<open>ContentCache\<close>. The field \<open>cache\<close> is the JavaScript \<^verbatim>\<open>Map\<close>, kept as
  an association list in insertion order (the order in which \<^verbatim>\<open>Map\<close> iterates);
  \<open>stats_hits\<close> and \<open>stats_misses\<close> are \<^verbatim>\<open>this.stats\<close>. \<open>localStorage\<close> is the browser
  store: \<open>None\<close> when it does not exist (every access throws and is swallowed by the
  \<^verbatim>\<open>try\<close>/\<^verbatim>\<open>catch\<close> of the storage helpers), otherwise the stored items by storage key.
  An item is kept as the entry itself: \<^verbatim>\<open>JSON.parse (JSON.stringify entry)\<close> is taken to
  give the entry back.
\<close>

record 'a ContentCache =
  cache :: "(string \<times> 'a CacheEntry) list"
  stats_hits :: nat
  stats_misses :: nat
  localStorage :: "(string \<times> 'a CacheEntry) list option"

definition DEFAULT_TTL :: int where
  "DEFAULT_TTL = 30 * 60 * 1000"

definition MAX_ENTRIES :: nat where
  "MAX_ENTRIES = 100"

definition typeString :: "CacheType \<Rightarrow> string" where
  "typeString t = (case t of type_content \<Rightarrow> ''content'' | type_quiz \<Rightarrow> ''quiz'')"

definition quizTypeString :: "QuizType \<Rightarrow> string" where
  "quizTypeString q = (case q of mid \<Rightarrow> ''mid'' | final \<Rightarrow> ''final'')"

text \<open>
  \<^verbatim>\<open>generateKey\<close>: \<^verbatim>\<open>if (numCards)\<close> is false for an absent count and for the count 0.
\<close>

definition generateKey :: "CacheKey \<Rightarrow> string" where
  "generateKey params =
     join '':''
       ([typeString (type params), subjectId params, gradeId params, topicId params,
         subtopicId params]
        @ (case quizType params of None \<Rightarrow> [] | Some q \<Rightarrow> [quizTypeString q])
        @ (case numCards params of None \<Rightarrow> []
           | Some n \<Rightarrow> if n = 0 then [] else [toString n]))"

definition storageKey :: "string \<Rightarrow> string" where
  "storageKey key = ''smartclass_cache_'' @ key"

definition persistToStorage :: "string \<Rightarrow> 'a CacheEntry \<Rightarrow> 'a ContentCache \<Rightarrow> 'a ContentCache" where
  "persistToStorage key entry c =
     (case localStorage c of
        None \<Rightarrow> c
      | Some items \<Rightarrow> c\<lparr>localStorage := Some (AList.update (storageKey key) entry items)\<rparr>)"

definition removeFromStorage :: "string \<Rightarrow> 'a ContentCache \<Rightarrow> 'a ContentCache" where
  "removeFromStorage key c =
     (case localStorage c of
        None \<Rightarrow> c
      | Some items \<Rightarrow> c\<lparr>localStorage := Some (AList.delete (storageKey key) items)\<rparr>)"

text \<open>
  \<^verbatim>\<open>loadFromStorage\<close> returns the stored entry, or \<open>None\<close> for \<^verbatim>\<open>null\<close>; an item found
  expired (\<^verbatim>\<open>Date.now() > entry.expiresAt\<close>) is removed from the store.
\<close>

definition loadFromStorage :: "int \<Rightarrow> string \<Rightarrow> 'a ContentCache \<Rightarrow> 'a CacheEntry option \<times> 'a ContentCache" where
  "loadFromStorage now key c =
     (case localStorage c of
        None \<Rightarrow> (None, c)
      | Some items \<Rightarrow>
          (case map_of items (storageKey key) of
             None \<Rightarrow> (None, c)
           | Some entry \<Rightarrow>
               if now > expiresAt entry
               then (None, c\<lparr>localStorage := Some (AList.delete (storageKey key) items)\<rparr>)
               else (Some entry, c)))"

text \<open>
  The loop of \<^verbatim>\<open>evictLeastRecentlyUsed\<close> over \<^verbatim>\<open>this.cache.entries()\<close>. The accumulator
  is \<^verbatim>\<open>(oldestKey, oldestTime)\<close>; \<open>None\<close> stands for \<^verbatim>\<open>null\<close> and for \<^verbatim>\<open>Infinity\<close>.
\<close>

fun oldestScan :: "(string \<times> 'a CacheEntry) list \<Rightarrow> string option \<times> int option
    \<Rightarrow> string option \<times> int option" where
  "oldestScan [] acc = acc"
| "oldestScan ((key, entry) # rest) (oldestKey, oldestTime) =
     (if (case oldestTime of None \<Rightarrow> True | Some t \<Rightarrow> lastAccessed entry < t)
      then oldestScan rest (Some key, Some (lastAccessed entry))
      else oldestScan rest (oldestKey, oldestTime))"

text \<open>\<^verbatim>\<open>if (oldestKey)\<close> is false for \<^verbatim>\<open>null\<close> and for the empty string.\<close>

definition evictLeastRecentlyUsed :: "'a ContentCache \<Rightarrow> 'a ContentCache" where
  "evictLeastRecentlyUsed c =
     (case fst (oldestScan (cache c) (None, None)) of
        None \<Rightarrow> c
      | Some oldestKey \<Rightarrow>
          if oldestKey = [] then c
          else removeFromStorage oldestKey (c\<lparr>cache := AList.delete oldestKey (cache c)\<rparr>))"

text \<open>
  \<^verbatim>\<open>set\<close>, with the reading \<open>now\<close> of \<^verbatim>\<open>Date.now()\<close>; the argument \<open>ttl\<close> is \<open>None\<close>
  when the caller leaves it out. One call reads the clock once: the clock does not advance
  inside \<^verbatim>\<open>set\<close> or \<^verbatim>\<open>get\<close>.
\<close>

definition set_entry :: "CacheKey \<Rightarrow> 'a \<Rightarrow> int option \<Rightarrow> int \<Rightarrow> 'a ContentCache \<Rightarrow> 'a ContentCache" where
  "set_entry params d ttl now c =
     (let key = generateKey params;
          c1 = (if length (cache c) \<ge> MAX_ENTRIES then evictLeastRecentlyUsed c else c);
          entry = \<lparr>data = d, timestamp = now,
                   expiresAt = now + (case ttl of None \<Rightarrow> DEFAULT_TTL | Some t \<Rightarrow> t),
                   accessCount = 0, lastAccessed = now\<rparr>;
          c2 = c1\<lparr>cache := AList.update key entry (cache c1)\<rparr>
      in persistToStorage key entry c2)"

definition processHit :: "string \<Rightarrow> 'a CacheEntry \<Rightarrow> int \<Rightarrow> 'a ContentCache \<Rightarrow> 'a \<times> 'a ContentCache" where
  "processHit key entry now c =
     (let entry' = entry\<lparr>accessCount := accessCount entry + 1, lastAccessed := now\<rparr>
      in (data entry',
          c\<lparr>cache := AList.update key entry' (cache c), stats_hits := stats_hits c + 1\<rparr>))"

text \<open>
  \<^verbatim>\<open>get\<close>, with the reading \<open>now\<close> of \<^verbatim>\<open>Date.now()\<close>. The result \<open>None\<close> is the
  \<^verbatim>\<open>null\<close> of a miss, \<open>Some d\<close> the payload of a hit.
\<close>

definition get :: "CacheKey \<Rightarrow> int \<Rightarrow> 'a ContentCache \<Rightarrow> 'a option \<times> 'a ContentCache" where
  "get params now c =
     (let key = generateKey params in
      case map_of (cache c) key of
        None \<Rightarrow>
          (case loadFromStorage now key c of
             (Some storedEntry, c1) \<Rightarrow>
               (let (d, c2) = processHit key storedEntry now
                                (c1\<lparr>cache := AList.update key storedEntry (cache c1)\<rparr>)
                in (Some d, c2))
           | (None, c1) \<Rightarrow> (None, c1\<lparr>stats_misses := stats_misses c1 + 1\<rparr>))
      | Some entry \<Rightarrow>
          if now > expiresAt entry
          then (None, (removeFromStorage key (c\<lparr>cache := AList.delete key (cache c)\<rparr>))
                        \<lparr>stats_misses := stats_misses c + 1\<rparr>)
          else (let (d, c1) = processHit key entry now c in (Some d, c1)))"

definition cacheContent :: "string \<Rightarrow> string \<Rightarrow> string \<Rightarrow> string \<Rightarrow> 'a \<Rightarrow> nat option \<Rightarrow> int
    \<Rightarrow> 'a ContentCache \<Rightarrow> 'a ContentCache" where
  "cacheContent tid stid sid gid cards n now c =
     set_entry \<lparr>type = type_content, topicId = tid, subtopicId = stid, subjectId = sid,
                gradeId = gid, quizType = None,
                numCards = Some (case n of None \<Rightarrow> 5 | Some k \<Rightarrow> k)\<rparr> cards None now c"

definition getCachedContent :: "string \<Rightarrow> string \<Rightarrow> string \<Rightarrow> string \<Rightarrow> nat option \<Rightarrow> int
    \<Rightarrow> 'a ContentCache \<Rightarrow> 'a option \<times> 'a ContentCache" where
  "getCachedContent tid stid sid gid n now c =
     get \<lparr>type = type_content, topicId = tid, subtopicId = stid, subjectId = sid,
          gradeId = gid, quizType = None,
          numCards = Some (case n of None \<Rightarrow> 5 | Some k \<Rightarrow> k)\<rparr> now c"

text \<open>
  \<^verbatim>\<open>invalidateTopic\<close>: \<^verbatim>\<open>!subtopicId\<close> holds for an absent and for an empty
  \<^verbatim>\<open>subtopicId\<close>. The keys to delete are collected first, then each is deleted from the
  map and from the store.
\<close>

definition keysToDelete :: "string \<Rightarrow> string option \<Rightarrow> 'a ContentCache \<Rightarrow> string list" where
  "keysToDelete tid stid c =
     filter (\<lambda>key. includesStr key tid \<and>
                    (case stid of None \<Rightarrow> True | Some s \<Rightarrow> s = [] \<or> includesStr key s))
            (map fst (cache c))"

definition deleteKey :: "string \<Rightarrow> 'a ContentCache \<Rightarrow> 'a ContentCache" where
  "deleteKey key c = removeFromStorage key (c\<lparr>cache := AList.delete key (cache c)\<rparr>)"

definition invalidateTopic :: "string \<Rightarrow> string option \<Rightarrow> 'a ContentCache \<Rightarrow> 'a ContentCache" where
  "invalidateTopic tid stid c = fold deleteKey (keysToDelete tid stid c) c"

text \<open>
  \<^verbatim>\<open>clear\<close>: \<^verbatim>\<open>clearStorage\<close> removes the items whose storage key starts with the prefix.
\<close>

definition clearStorage :: "'a ContentCache \<Rightarrow> 'a ContentCache" where
  "clearStorage c =
     (case localStorage c of
        None \<Rightarrow> c
      | Some items \<Rightarrow>
          c\<lparr>localStorage :=
               Some (filter (\<lambda>(k, _). \<not> prefix ''smartclass_cache_'' k) items)\<rparr>)"

definition clear :: "'a ContentCache \<Rightarrow> 'a ContentCache" where
  "clear c = (clearStorage (c\<lparr>cache := []\<rparr>))\<lparr>stats_hits := 0, stats_misses := 0\<rparr>"

text \<open>
  \<^verbatim>\<open>getStats\<close>; \<open>jsonLength d\<close> is \<^verbatim>\<open>JSON.stringify(d).length\<close>.
\<close>

definition getStats :: "('a \<Rightarrow> nat) \<Rightarrow> 'a ContentCache \<Rightarrow> CacheStats" where
  "getStats jsonLength c =
     (let totalRequests = stats_hits c + stats_misses c;
          rate = (if totalRequests > 0
                  then (of_nat (stats_hits c) / of_nat totalRequests) * 100 else 0);
          usage = sum_list (map (\<lambda>(k, entry). jsonLength (data entry)) (cache c))
      in \<lparr>totalEntries = length (cache c),
          memoryUsage = Math_round (of_nat usage / 1024),
          hitRate = of_int (Math_round (rate * 100)) / 100,
          hits = stats_hits c,
          misses = stats_misses c\<rparr>)"

text \<open>\<^verbatim>\<open>cleanup\<close>, the periodic sweep.\<close>

definition cleanup :: "int \<Rightarrow> 'a ContentCache \<Rightarrow> 'a ContentCache" where
  "cleanup now c =
     fold deleteKey (map fst (filter (\<lambda>(k, entry). now > expiresAt entry) (cache c))) c"

text \<open>The cache of a fresh page: no entry, no request counted, an empty store.\<close>

definition emptyCache :: "'a ContentCache" where
  "emptyCache = \<lparr>cache = [], stats_hits = 0, stats_misses = 0, localStorage = Some []\<rparr>"


section \<open>Lesson page (\<^verbatim>\<open>ContentPage\<close>)\<close>

datatype ContentState =
  st_intro | st_content | st_thank_you | st_main_quiz | st_main_quiz_review
  | st_exam_practice | st_exam_review | st_completion

datatype QuestionType = multiple_choice | fill_blank | true_false

record QuizQuestion =
  question :: string
  question_type :: QuestionType
  options :: "string list option"
  correct_answer :: string
  explanation :: string

text \<open>
  The React state of the page that \<^verbatim>\<open>handleNextCard\<close> reads and writes. \<open>quizAnswers\<close>
  and \<open>quizResults\<close> are the two \<^verbatim>\<open>Record\<close> objects, kept as association lists;
  \<open>pageContent\<close>, \<open>mainQuiz\<close> and \<open>examQuiz\<close> are the loaded bundles (\<open>pageContent\<close> is
  the state variable \<^verbatim>\<open>content\<close>).
\<close>

record 'c ContentPage =
  contentState :: ContentState
  currentCardIndex :: nat
  quizAnswers :: "(nat \<times> string) list"
  quizResults :: "(nat \<times> bool) list"
  pageContent :: "'c list"
  mainQuiz :: "QuizQuestion list"
  examQuiz :: "QuizQuestion list"

text \<open>
  \<^verbatim>\<open>currentContent.length\<close>: \<^verbatim>\<open>introContent\<close> and \<^verbatim>\<open>thankYouContent\<close> hold one card
  each, and the \<^verbatim>\<open>default\<close> branch (completion) is the empty array.
\<close>

definition currentContentLength :: "'c ContentPage \<Rightarrow> nat" where
  "currentContentLength p =
     (case contentState p of
        st_intro \<Rightarrow> 1
      | st_content \<Rightarrow> length (pageContent p)
      | st_thank_you \<Rightarrow> 1
      | st_main_quiz \<Rightarrow> length (mainQuiz p)
      | st_main_quiz_review \<Rightarrow> length (mainQuiz p)
      | st_exam_practice \<Rightarrow> length (examQuiz p)
      | st_exam_review \<Rightarrow> length (examQuiz p)
      | st_completion \<Rightarrow> 0)"

text \<open>
  \<^verbatim>\<open>evaluateQuiz\<close>: \<^verbatim>\<open>quizAnswers[index] === question.correct_answer\<close> is false for a
  question without a recorded answer.
\<close>

definition evaluateQuiz :: "QuizQuestion list \<Rightarrow> 'c ContentPage \<Rightarrow> 'c ContentPage" where
  "evaluateQuiz quiz p =
     p\<lparr>quizResults :=
         map (\<lambda>index. (index, map_of (quizAnswers p) index = Some (correct_answer (quiz ! index))))
           [0..<length quiz]\<rparr>"

definition handleAnswerSelect :: "nat \<Rightarrow> string \<Rightarrow> 'c ContentPage \<Rightarrow> 'c ContentPage" where
  "handleAnswerSelect questionIndex answer p =
     p\<lparr>quizAnswers := AList.update questionIndex answer (quizAnswers p)\<rparr>"

definition handleNextCard :: "'c ContentPage \<Rightarrow> 'c ContentPage" where
  "handleNextCard p =
     (if int (currentCardIndex p) < int (currentContentLength p) - 1
      then p\<lparr>currentCardIndex := currentCardIndex p + 1\<rparr>
      else (case contentState p of
              st_intro \<Rightarrow> p\<lparr>contentState := st_content, currentCardIndex := 0\<rparr>
            | st_content \<Rightarrow> p\<lparr>contentState := st_thank_you, currentCardIndex := 0\<rparr>
            | st_thank_you \<Rightarrow>
                p\<lparr>contentState := st_main_quiz, currentCardIndex := 0, quizAnswers := []\<rparr>
            | st_main_quiz \<Rightarrow>
                (evaluateQuiz (mainQuiz p) p)
                  \<lparr>contentState := st_main_quiz_review, currentCardIndex := 0\<rparr>
            | st_main_quiz_review \<Rightarrow>
                p\<lparr>contentState := st_exam_practice, currentCardIndex := 0, quizAnswers := []\<rparr>
            | st_exam_practice \<Rightarrow>
                (evaluateQuiz (examQuiz p) p)
                  \<lparr>contentState := st_exam_review, currentCardIndex := 0\<rparr>
            | st_exam_review \<Rightarrow> p\<lparr>contentState := st_completion\<rparr>
            | st_completion \<Rightarrow> p))"





text \<open>
  The fixed forward order of the states as the specification lists it, for comparison
  with \<open>handleNextCard\<close>.
\<close>

fun spec_next :: "ContentState \<Rightarrow> ContentState" where
  "spec_next st_intro = st_content"
| "spec_next st_content = st_thank_you"
| "spec_next st_thank_you = st_main_quiz"
| "spec_next st_main_quiz = st_main_quiz_review"
| "spec_next st_main_quiz_review = st_exam_practice"
| "spec_next st_exam_practice = st_exam_review"
| "spec_next st_exam_review = st_completion"
| "spec_next st_completion = st_completion"

section \<open>Gateways (\<^verbatim>\<open>lib/api-client.ts\<close>, the ChromaDB client)\<close>

text \<open>More string primitives, on ASCII letters.\<close>

definition nl :: string where
  "nl = [CHR 0x0A]"

definition toUpperChar :: "char \<Rightarrow> char" where
  "toUpperChar c = (let n = (of_char c :: nat) in if 97 \<le> n \<and> n \<le> 122 then char_of (n - 32) else c)"

definition toLowerChar :: "char \<Rightarrow> char" where
  "toLowerChar c = (let n = (of_char c :: nat) in if 65 \<le> n \<and> n \<le> 90 then char_of (n + 32) else c)"

text \<open>The class \<^verbatim>\<open>\w\<close> of regular expressions.\<close>

definition isWordChar :: "char \<Rightarrow> bool" where
  "isWordChar c =
     (let n = (of_char c :: nat)
      in (97 \<le> n \<and> n \<le> 122) \<or> (65 \<le> n \<and> n \<le> 90) \<or> (48 \<le> n \<and> n \<le> 57) \<or> n = 95)"

text \<open>\<^verbatim>\<open>s.split(sep)\<close> with a one-character separator.\<close>

fun splitOn :: "char \<Rightarrow> string \<Rightarrow> string list" where
  "splitOn sep [] = [[]]"
| "splitOn sep (c # cs) =
     (if c = sep then [] # splitOn sep cs
      else (case splitOn sep cs of [] \<Rightarrow> [[c]] | w # ws \<Rightarrow> (c # w) # ws))"

text \<open>\<^verbatim>\<open>s.replace('-', ' ')\<close>: the first occurrence only.\<close>

fun replaceFirst :: "char \<Rightarrow> char \<Rightarrow> string \<Rightarrow> string" where
  "replaceFirst a b [] = []"
| "replaceFirst a b (c # cs) = (if c = a then b # cs else c # replaceFirst a b cs)"

text \<open>
  \<^verbatim>\<open>s.replace(/\b\w/g, l => l.toUpperCase())\<close>: every word character that follows a
  non-word character or starts the string; the flag says whether the character before is a
  word character.
\<close>

fun upperWordStarts :: "bool \<Rightarrow> string \<Rightarrow> string" where
  "upperWordStarts prevWord [] = []"
| "upperWordStarts prevWord (c # cs) =
     (if isWordChar c \<and> \<not> prevWord then toUpperChar c else c) # upperWordStarts (isWordChar c) cs"

text \<open>\<^verbatim>\<open>arr.filter((x, index, arr) => arr.indexOf(x) === index)\<close>: first occurrences.\<close>

definition firstOccurrences :: "'a list \<Rightarrow> 'a list" where
  "firstOccurrences xs = rev (remdups (rev xs))"

text \<open>
  What a request can throw: \<^verbatim>\<open>fetch\<close> rejects, or \<^verbatim>\<open>makeRequest\<close> throws on a response
  that is not ok.
\<close>

datatype error = FetchError | ApiError nat

record HealthResponse =
  status :: string
  model_loaded :: bool
  tokenizer_loaded :: bool
  cuda_available :: bool
  device :: string

record ContentRequest =
  topic_id :: string
  subtopic_id :: string
  subject_id :: string
  grade_id :: string
  user_level :: "nat option"
  num_cards :: "nat option"

record ContentCard =
  title :: string
  body :: string
  card_type :: string

text \<open>\<^verbatim>\<open>ContentResponse\<close>; \<open>response_content\<close> is its field \<^verbatim>\<open>content\<close>, and the unused
  \<^verbatim>\<open>metadata\<close> is left out.\<close>

record ContentResponse =
  success :: bool
  response_content :: "ContentCard list"

record DocMetadata =
  document_type :: "string option"
  topic :: "string option"

text \<open>\<^verbatim>\<open>ChromaDocument\<close>; \<open>doc_id\<close> and \<open>doc_text\<close> are its fields \<^verbatim>\<open>id\<close> and \<^verbatim>\<open>text\<close>.\<close>

record ChromaDocument =
  doc_id :: string
  doc_text :: string
  metadata :: DocMetadata
  distance :: "rat option"

record RetrievalContext =
  documents :: "ChromaDocument list"
  relevantContent :: string
  sources :: "string list"

record Validation =
  isValid :: bool
  confidence :: rat
  suggestions :: "string list"
  curriculumAlignment :: rat

text \<open>\<^verbatim>\<open>AIContentCard extends ContentCard\<close>; \<open>card_image\<close> is its field \<^verbatim>\<open>image\<close>.\<close>

record AIContentCard = ContentCard +
  card_image :: "string option"
  validation :: "Validation option"
  ragContext :: "RetrievalContext option"

record ServiceStatus =
  available :: bool
  modelLoaded :: bool
  message :: string

text \<open>The JSON of \<^verbatim>\<open>/chromadb-status\<close> (\<^verbatim>\<open>data.available\<close>, \<^verbatim>\<open>data.document_count\<close>).\<close>

record ChromaStatusData =
  status_available :: bool
  document_count :: "nat option"

record CollectionStats =
  totalDocuments :: nat
  subjects :: "string list"
  grades :: "string list"
  isAvailable :: bool

text \<open>The result of \<^verbatim>\<open>checkChromaDBStatus\<close> (\<^verbatim>\<open>available\<close>, \<^verbatim>\<open>collectionExists\<close>,
  \<^verbatim>\<open>documentCount\<close>, \<^verbatim>\<open>message\<close>).\<close>

record ChromaDBStatus =
  chroma_available :: bool
  collectionExists :: bool
  documentCount :: nat
  chroma_message :: string

record SearchRequest =
  query :: string
  subject :: string
  grade :: string
  n_results :: nat

text \<open>The JSON of \<^verbatim>\<open>/search-curriculum\<close> (\<^verbatim>\<open>data.success\<close>, \<^verbatim>\<open>data.documents\<close>).\<close>

record SearchData =
  search_success :: bool
  search_documents :: "ChromaDocument list option"

text \<open>
  The two services behind the gateways, as what each request returns: \<open>Inl\<close> when the
  request throws, \<open>Inr\<close> the parsed response, which has its declared type. A service
  answers equal requests equally while one content request is served.
\<close>

record Services =
  checkHealth :: "error + HealthResponse"
  generateContent :: "ContentRequest \<Rightarrow> error + ContentResponse"
  chromadbStatus :: "error + ChromaStatusData"
  searchCurriculum :: "SearchRequest \<Rightarrow> error + SearchData"

text \<open>
  The mutable singletons: \<^verbatim>\<open>contentCache\<close> (holding card bundles) and the field
  \<^verbatim>\<open>isConnected\<close> of \<^verbatim>\<open>chromaClient\<close>.
\<close>

record World =
  contentCache :: "AIContentCard list ContentCache"
  isConnected :: bool

definition generateContentForSubtopic :: "Services \<Rightarrow> string \<Rightarrow> string \<Rightarrow> string \<Rightarrow> string \<Rightarrow> nat
    \<Rightarrow> ContentCard list" where
  "generateContentForSubtopic env tid stid sid gid n =
     (case generateContent env \<lparr>topic_id = tid, subtopic_id = stid, subject_id = sid,
                                 grade_id = gid, user_level = None, num_cards = Some n\<rparr> of
        Inr response \<Rightarrow> response_content response
      | Inl err \<Rightarrow>
          [\<lparr>title = upperWordStarts False (replaceFirst CHR ''-'' CHR '' '' stid) @ '' Overview'',
            body = ''<p>Welcome to this lesson on '' @ replaceFirst CHR ''-'' CHR '' '' stid
                   @ ''.</p><p>This content will be available when the AI service is running.</p>'',
            card_type = ''content''\<rparr>])"

definition checkAiServiceStatus :: "Services \<Rightarrow> ServiceStatus" where
  "checkAiServiceStatus env =
     (case checkHealth env of
        Inr health \<Rightarrow>
          if \<not> model_loaded health
          then \<lparr>available = True, modelLoaded = False,
                message = ''AI service is starting up. Model is loading...''\<rparr>
          else \<lparr>available = True, modelLoaded = True, message = ''AI service is ready!''\<rparr>
      | Inl err \<Rightarrow>
          \<lparr>available = False, modelLoaded = False,
           message = ''AI service is not available. Using fallback content.''\<rparr>)"

definition testConnection :: "Services \<Rightarrow> World \<Rightarrow> bool \<times> World" where
  "testConnection env w =
     (case chromadbStatus env of
        Inr d \<Rightarrow> (status_available d, w\<lparr>isConnected := status_available d\<rparr>)
      | Inl err \<Rightarrow> (False, w\<lparr>isConnected := False\<rparr>))"

definition getEmptyContext :: RetrievalContext where
  "getEmptyContext = \<lparr>documents = [], relevantContent = [], sources = []\<rparr>"

text \<open>\<^verbatim>\<open>doc.distance || 1.0\<close>: an absent distance and the distance 0 count as 1.\<close>

definition distanceOr1 :: "ChromaDocument \<Rightarrow> rat" where
  "distanceOr1 doc = (case distance doc of None \<Rightarrow> 1 | Some x \<Rightarrow> if x = 0 then 1 else x)"

definition retrieveContext :: "Services \<Rightarrow> string \<Rightarrow> string \<Rightarrow> string \<Rightarrow> string option \<Rightarrow> nat
    \<Rightarrow> World \<Rightarrow> RetrievalContext \<times> World" where
  "retrieveContext env q sid gid tid nResults w =
     (let w1 = (if \<not> isConnected w then snd (testConnection env w) else w) in
      if \<not> isConnected w1 then (getEmptyContext, w1)
      else (case searchCurriculum env \<lparr>query = q, subject = sid, grade = gid,
                                        n_results = nResults\<rparr> of
              Inl err \<Rightarrow> (getEmptyContext, w1)
            | Inr d \<Rightarrow>
                if \<not> search_success d then (getEmptyContext, w1)
                else (case search_documents d of
                        None \<Rightarrow> (getEmptyContext, w1)
                      | Some docs \<Rightarrow>
                          (let relevantDocs = filter (\<lambda>doc. distanceOr1 doc < 8 / 10) docs
                           in (\<lparr>documents = relevantDocs,
                                relevantContent =
                                  take 2000 (join (nl @ nl) (map doc_text relevantDocs)),
                                sources =
                                  firstOccurrences
                                    (map (\<lambda>doc. case document_type (metadata doc) of
                                                   None \<Rightarrow> ''syllabus_document''
                                                 | Some t \<Rightarrow> if t = [] then ''syllabus_document''
                                                             else t)
                                       relevantDocs)\<rparr>, w1)))))"

text \<open>
  \<^verbatim>\<open>validateContent\<close>. \<^verbatim>\<open>retrieveContext\<close> catches its own failures, so the \<^verbatim>\<open>catch\<close>
  block here has nothing to catch.
\<close>

definition validateContent :: "Services \<Rightarrow> string \<Rightarrow> string \<Rightarrow> string \<Rightarrow> string \<Rightarrow> World
    \<Rightarrow> Validation \<times> World" where
  "validateContent env aiContent sid gid tid w =
     (let (ctx, w1) = retrieveContext env (take 200 aiContent) sid gid (Some tid) 3 w in
      if length (documents ctx) = 0
      then (\<lparr>isValid = True, confidence = 5 / 10,
              suggestions = [''No specific curriculum content found for validation''],
              curriculumAlignment = 5 / 10\<rparr>, w1)
      else
        (let avgDistance = sum_list (map distanceOr1 (documents ctx))
                             / of_nat (length (documents ctx));
             alignment = max 0 (1 - avgDistance);
             topics = take 3 (firstOccurrences
                        (concat (map (\<lambda>doc. case topic (metadata doc) of
                                              None \<Rightarrow> []
                                            | Some t \<Rightarrow> if t = [] then [] else [t])
                                   (documents ctx))))
         in (\<lparr>isValid = (alignment > 3 / 10),
              confidence = min (95 / 100) (alignment * (12 / 10)),
              suggestions =
                (if alignment < 5 / 10
                 then [''Consider aligning content more closely with curriculum standards'']
                 else [])
                @ (if length topics > 0
                   then [''Consider incorporating concepts from: '' @ join '', '' topics]
                   else []),
              curriculumAlignment = alignment\<rparr>, w1)))"

text \<open>
  \<^verbatim>\<open>getCollectionStats\<close> and \<^verbatim>\<open>checkChromaDBStatus\<close>. The two calls made by
  \<^verbatim>\<open>checkChromaDBStatus\<close> catch their own failures, so its \<^verbatim>\<open>catch\<close> block has nothing
  to catch.
\<close>

definition getCollectionStats :: "Services \<Rightarrow> CollectionStats" where
  "getCollectionStats env =
     (case chromadbStatus env of
        Inr d \<Rightarrow>
          if \<not> status_available d
          then \<lparr>totalDocuments = 0, subjects = [], grades = [], isAvailable = False\<rparr>
          else \<lparr>totalDocuments = (case document_count d of None \<Rightarrow> 0 | Some n \<Rightarrow> n),
                subjects = [], grades = [], isAvailable = True\<rparr>
      | Inl err \<Rightarrow> \<lparr>totalDocuments = 0, subjects = [], grades = [], isAvailable = False\<rparr>)"

definition checkChromaDBStatus :: "Services \<Rightarrow> World \<Rightarrow> ChromaDBStatus \<times> World" where
  "checkChromaDBStatus env w =
     (let (connected, w1) = testConnection env w in
      if \<not> connected
      then (\<lparr>chroma_available = False, collectionExists = False, documentCount = 0,
              chroma_message = ''ChromaDB service is not available''\<rparr>, w1)
      else
        (let stats = getCollectionStats env
         in (\<lparr>chroma_available = True, collectionExists = isAvailable stats,
              documentCount = totalDocuments stats,
              chroma_message =
                (if isAvailable stats
                 then ''ChromaDB ready with '' @ toString (totalDocuments stats)
                      @ '' curriculum documents''
                 else ''ChromaDB collection not found'')\<rparr>, w1)))"

text \<open>The result of \<^verbatim>\<open>generateRAGEnhancedContent\<close>; \<open>rag_context\<close> is its field
  \<^verbatim>\<open>context\<close>. The function's \<^verbatim>\<open>catch\<close> block has nothing to catch either: both calls
  of its \<^verbatim>\<open>try\<close> block catch their own failures.\<close>

record RAGResult =
  enhancedPrompt :: string
  rag_context :: RetrievalContext
  rag_validation :: "Validation option"

definition generateRAGEnhancedContent :: "Services \<Rightarrow> string \<Rightarrow> string \<Rightarrow> string \<Rightarrow> string
    \<Rightarrow> string \<Rightarrow> World \<Rightarrow> RAGResult \<times> World" where
  "generateRAGEnhancedContent env prompt sid gid tid stid w =
     (let (ctx, w1) = retrieveContext env (tid @ '' '' @ stid @ '' '' @ prompt) sid gid (Some tid) 5 w;
          enhanced =
            (if relevantContent ctx \<noteq> []
             then prompt @ nl @ nl @ ''Relevant curriculum context:'' @ nl @ relevantContent ctx
                  @ nl @ nl
                  @ ''Please ensure content aligns with the curriculum standards above.''
             else prompt)
      in if length (documents ctx) > 0
         then (let (v, w2) = validateContent env prompt sid gid tid w1
               in (\<lparr>enhancedPrompt = enhanced, rag_context = ctx, rag_validation = Some v\<rparr>, w2))
         else (\<lparr>enhancedPrompt = enhanced, rag_context = ctx, rag_validation = None\<rparr>, w1))"

section \<open>Content orchestrator (\<^verbatim>\<open>data/ai-content\<close>)\<close>

definition formatTitle :: "string \<Rightarrow> string" where
  "formatTitle ident =
     join '' '' (map (\<lambda>word. map toUpperChar (take 1 word) @ drop 1 word) (splitOn CHR ''-'' ident))"

definition shouldHaveImage :: "string \<Rightarrow> string \<Rightarrow> bool" where
  "shouldHaveImage t b =
     (let imageKeywords =
            [''diagram'', ''picture'', ''image'', ''chart'', ''graph'', ''illustration'',
             ''visual'', ''map'', ''timeline'', ''shape'', ''geometry'', ''animal'', ''plant''];
          txt = map toLowerChar (t @ '' '' @ b)
      in list_ex (\<lambda>keyword. includesStr txt keyword) imageKeywords)"

text \<open>
  \<^verbatim>\<open>getFallbackContent\<close>: three cards, with no image, validation or retrieval context.
  The argument \<^verbatim>\<open>topicId\<close> is not used by the source either.
\<close>

definition getFallbackContent :: "string \<Rightarrow> string \<Rightarrow> string \<Rightarrow> AIContentCard list" where
  \<open>getFallbackContent stid tid sid =
     [\<lparr>title = ''Introduction to '' @ formatTitle stid,
       body = ''<p>Welcome to this lesson on '' @ formatTitle stid @ ''!</p>''
             @ nl @ ''             <p>This topic is an important part of '' @ formatTitle sid @ '' education.</p>''
             @ nl @ ''             <p>Key learning objectives for this lesson:</p>''
             @ nl @ ''             <ul class="list-disc pl-6 my-4 space-y-2">''
             @ nl @ ''               <li>Understand the basic concepts</li>''
             @ nl @ ''               <li>Learn practical applications</li>''
             @ nl @ ''               <li>Practice with examples</li>''
             @ nl @ ''               <li>Apply knowledge to solve problems</li>''
             @ nl @ ''             </ul>''
             @ nl @ ''             <div class="bg-blue-50 p-4 rounded-md my-4 border-l-4 border-blue-400">''
             @ nl @ ''               <p class="font-semibold">Note: Enhanced AI content will be available when the AI service is running.</p>''
             @ nl @ ''             </div>'',
       card_type = ''introduction'',
       card_image = None, validation = None, ragContext = None\<rparr>,
      \<lparr>title = ''Key Concepts in '' @ formatTitle stid,
       body = ''<p>Let's explore the fundamental concepts you'll learn in this lesson:</p>''
             @ nl @ ''             <div class="space-y-4 my-4">''
             @ nl @ ''               <div class="bg-gray-50 p-3 rounded-md">''
             @ nl @ ''                 <h4 class="font-semibold mb-2">Core Principles</h4>''
             @ nl @ ''                 <p>Understanding the underlying principles helps build a solid foundation.</p>''
             @ nl @ ''               </div>''
             @ nl @ ''               <div class="bg-gray-50 p-3 rounded-md">''
             @ nl @ ''                 <h4 class="font-semibold mb-2">Real-World Applications</h4>''
             @ nl @ ''                 <p>See how these concepts apply to everyday situations and future learning.</p>''
             @ nl @ ''               </div>''
             @ nl @ ''               <div class="bg-gray-50 p-3 rounded-md">''
             @ nl @ ''                 <h4 class="font-semibold mb-2">Practice Opportunities</h4>''
             @ nl @ ''                 <p>Apply what you learn through guided exercises and examples.</p>''
             @ nl @ ''               </div>''
             @ nl @ ''             </div>'',
       card_type = ''concepts'',
       card_image = None, validation = None, ragContext = None\<rparr>,
      \<lparr>title = ''Summary and Next Steps'',
       body = ''<p>Great job working through this lesson on '' @ formatTitle stid @ ''!</p>''
             @ nl @ ''             <p>Remember these key points:</p>''
             @ nl @ ''             <ul class="list-disc pl-6 my-4 space-y-2">''
             @ nl @ ''               <li>Practice regularly to reinforce your learning</li>''
             @ nl @ ''               <li>Ask questions when you need clarification</li>''
             @ nl @ ''               <li>Connect new concepts to what you already know</li>''
             @ nl @ ''               <li>Look for patterns and relationships</li>''
             @ nl @ ''             </ul>''
             @ nl @ ''             <div class="bg-green-50 p-4 rounded-md my-4 border-l-4 border-green-400">''
             @ nl @ ''               <p class="font-semibold">Ready for the quiz? Test your understanding of '' @ formatTitle stid @ ''!</p>''
             @ nl @ ''             </div>'',
       card_type = ''summary'',
       card_image = None, validation = None, ragContext = None\<rparr>]\<close>

text \<open>
  The object spread \<^verbatim>\<open>{...card, image: ...}\<close> of the plain generation paths.
\<close>

definition withImage :: "ContentCard \<Rightarrow> AIContentCard" where
  "withImage contentCard =
     \<lparr>title = title contentCard, body = body contentCard, card_type = card_type contentCard,
      card_image = (if shouldHaveImage (title contentCard) (body contentCard)
                    then Some ''/placeholder.svg?height=200&width=400'' else None),
      validation = None, ragContext = None\<rparr>"

text \<open>
  The \<^verbatim>\<open>Promise.all\<close> over the generated cards in \<^verbatim>\<open>generateRAGEnhancedContentCards\<close>,
  one \<^verbatim>\<open>validateContent\<close> call per card, taken in card order.
\<close>

fun validateCards :: "Services \<Rightarrow> string \<Rightarrow> string \<Rightarrow> string \<Rightarrow> RetrievalContext
    \<Rightarrow> ContentCard list \<Rightarrow> World \<Rightarrow> AIContentCard list \<times> World" where
  "validateCards env sid gid tid ctx [] w = ([], w)"
| "validateCards env sid gid tid ctx (contentCard # rest) w =
     (let (v, w1) = validateContent env (body contentCard) sid gid tid w;
          (validated, w2) = validateCards env sid gid tid ctx rest w1
      in (\<lparr>title = title contentCard, body = body contentCard, card_type = card_type contentCard,
           card_image = (if shouldHaveImage (title contentCard) (body contentCard)
                         then Some ''/placeholder.svg?height=200&width=400'' else None),
           validation = Some v, ragContext = Some ctx\<rparr> # validated, w2))"

text \<open>
  The \<^verbatim>\<open>try\<close> block of \<^verbatim>\<open>generateRAGEnhancedContentCards\<close>, then the function with its
  \<^verbatim>\<open>catch\<close> block. A result \<open>Inl\<close> is a thrown error. Every call of the \<^verbatim>\<open>try\<close> block
  catches its own failures.
\<close>

definition ragCardsTry :: "Services \<Rightarrow> string \<Rightarrow> string \<Rightarrow> string \<Rightarrow> string \<Rightarrow> nat \<Rightarrow> World
    \<Rightarrow> (error + AIContentCard list) \<times> World" where
  "ragCardsTry env stid tid sid gid n w =
     (let contentPrompt = ''Generate '' @ toString n @ '' educational content cards for ''
                          @ formatTitle stid @ '' in '' @ formatTitle sid @ '' for '' @ gid;
          (ragResult, w1) = generateRAGEnhancedContent env contentPrompt sid gid tid stid w;
          aiContent = generateContentForSubtopic env tid stid sid gid n;
          (validatedContent, w2) = validateCards env sid gid tid (rag_context ragResult) aiContent w1
      in (Inr validatedContent, w2))"

definition generateRAGEnhancedContentCards :: "Services \<Rightarrow> string \<Rightarrow> string \<Rightarrow> string \<Rightarrow> string
    \<Rightarrow> nat \<Rightarrow> World \<Rightarrow> (error + AIContentCard list) \<times> World" where
  "generateRAGEnhancedContentCards env stid tid sid gid n w =
     (case ragCardsTry env stid tid sid gid n w of
        (Inr cards, w1) \<Rightarrow> (Inr cards, w1)
      | (Inl err, w1) \<Rightarrow>
          (Inr (map withImage (generateContentForSubtopic env tid stid sid gid n)), w1))"

text \<open>
  \<^verbatim>\<open>getAIContentForSubtopic\<close>: its \<^verbatim>\<open>try\<close> block, then the function with its
  \<^verbatim>\<open>catch\<close> block. \<open>now\<close> is the clock reading of the cache lookup, \<open>later\<close> the reading
  of the cache write that follows the awaited calls. \<^verbatim>\<open>if (cachedContent)\<close> holds for
  every cached array, the empty one too.
\<close>

definition contentTry :: "Services \<Rightarrow> int \<Rightarrow> int \<Rightarrow> string \<Rightarrow> string \<Rightarrow> string \<Rightarrow> string \<Rightarrow> nat
    \<Rightarrow> World \<Rightarrow> (error + AIContentCard list) \<times> World" where
  "contentTry env now later stid tid sid gid n w =
     (case getCachedContent tid stid sid gid (Some n) now (contentCache w) of
        (Some cachedContent, c1) \<Rightarrow> (Inr cachedContent, w\<lparr>contentCache := c1\<rparr>)
      | (None, c1) \<Rightarrow>
          (let w1 = w\<lparr>contentCache := c1\<rparr>;
               serviceStatus = checkAiServiceStatus env
           in if \<not> available serviceStatus \<or> \<not> modelLoaded serviceStatus
              then (let fallbackContent = getFallbackContent stid tid sid
                    in (Inr fallbackContent,
                        w1\<lparr>contentCache :=
                             cacheContent tid stid sid gid fallbackContent (Some n) later
                               (contentCache w1)\<rparr>))
              else (let (chromaStatus, w2) = checkChromaDBStatus env w1
                    in case (if chroma_available chromaStatus \<and> collectionExists chromaStatus
                             then generateRAGEnhancedContentCards env stid tid sid gid n w2
                             else (Inr (map withImage
                                          (generateContentForSubtopic env tid stid sid gid n)),
                                   w2)) of
                         (Inl err, w3) \<Rightarrow> (Inl err, w3)
                       | (Inr enhancedContent, w3) \<Rightarrow>
                           (Inr enhancedContent,
                            w3\<lparr>contentCache :=
                                 cacheContent tid stid sid gid enhancedContent (Some n) later
                                   (contentCache w3)\<rparr>))))"

definition getAIContentForSubtopic :: "Services \<Rightarrow> int \<Rightarrow> int \<Rightarrow> string \<Rightarrow> string \<Rightarrow> string
    \<Rightarrow> string \<Rightarrow> nat option \<Rightarrow> World \<Rightarrow> (error + AIContentCard list) \<times> World" where
  "getAIContentForSubtopic env now later stid tid sid gid numCardsArg w =
     (let n = (case numCardsArg of None \<Rightarrow> 5 | Some k \<Rightarrow> k)
      in case contentTry env now later stid tid sid gid n w of
           (Inr cards, w1) \<Rightarrow> (Inr cards, w1)
         | (Inl err, w1) \<Rightarrow>
             (let fallbackContent = getFallbackContent stid tid sid
              in (Inr fallbackContent,
                  w1\<lparr>contentCache :=
                       cacheContent tid stid sid gid fallbackContent (Some n) later
                         (contentCache w1)\<rparr>)))"

section \<open>Concrete inputs\<close>

definition exampleKey :: CacheKey where
  "exampleKey = \<lparr>type = type_content, topicId = ''numbers'', subtopicId = ''counting'',
                  subjectId = ''mathematics'', gradeId = ''grade-1'', quizType = None,
                  numCards = Some 5\<rparr>"

definition otherKey :: CacheKey where
  "otherKey = \<lparr>type = type_content, topicId = ''numbers'', subtopicId = ''data-tables'',
                subjectId = ''mathematics'', gradeId = ''grade-1'', quizType = None,
                numCards = Some 5\<rparr>"


text \<open>A page reloaded: nothing in memory, one live entry in the browser store.\<close>

definition reloadedCache :: "string ContentCache" where
  "reloadedCache =
     \<lparr>cache = [], stats_hits = 0, stats_misses = 0,
      localStorage = Some [(storageKey (generateKey exampleKey),
                            \<lparr>data = ''cards'', timestamp = 0, expiresAt = 1800000,
                             accessCount = 2, lastAccessed = 500\<rparr>)]\<rparr>"

text \<open>Both services down, and both services up.\<close>

definition downServices :: Services where
  "downServices =
     \<lparr>checkHealth = Inl FetchError, generateContent = (\<lambda>req. Inl FetchError),
      chromadbStatus = Inl FetchError, searchCurriculum = (\<lambda>req. Inl FetchError)\<rparr>"

definition healthyServices :: Services where
  "healthyServices =
     \<lparr>checkHealth = Inr \<lparr>status = ''healthy'', model_loaded = True, tokenizer_loaded = True,
                          cuda_available = False, device = ''cpu''\<rparr>,
      generateContent =
        (\<lambda>req. Inr \<lparr>success = True,
                     response_content =
                       [\<lparr>title = ''Counting to Ten'', body = ''<p>Count the objects.</p>'',
                         card_type = ''content''\<rparr>]\<rparr>),
      chromadbStatus = Inr \<lparr>status_available = True, document_count = Some 12\<rparr>,
      searchCurriculum =
        (\<lambda>req. Inr \<lparr>search_success = True,
                     search_documents =
                       Some [\<lparr>doc_id = ''doc-1'', doc_text = ''Counting objects up to ten'',
                              metadata = \<lparr>document_type = Some ''syllabus'',
                                          topic = Some ''numbers''\<rparr>,
                              distance = Some (1 / 4)\<rparr>]\<rparr>)\<rparr>"

definition freshWorld :: World where
  "freshWorld = \<lparr>contentCache = emptyCache, isConnected = False\<rparr>"

text \<open>A quiz of four questions and a page at its last question, three of them answered
  correctly.\<close>

definition exampleQuiz :: "QuizQuestion list" where
  "exampleQuiz =
     map (\<lambda>a. \<lparr>question = ''Pick '' @ a, question_type = multiple_choice,
                options = Some [''A'', ''B'', ''C'', ''D''], correct_answer = a,
                explanation = ''The answer is '' @ a\<rparr>) [''A'', ''B'', ''C'', ''D'']"

definition quizPage :: "AIContentCard ContentPage" where
  "quizPage =
     \<lparr>contentState = st_main_quiz, currentCardIndex = 3,
      quizAnswers = [(0, ''A''), (1, ''B''), (2, ''C''), (3, ''A'')], quizResults = [],
      pageContent = [], mainQuiz = exampleQuiz, examQuiz = exampleQuiz\<rparr>"

section \<open>Facts about the primitives\<close>


lemma includesStr_iff: "includesStr s sub \<longleftrightarrow> (\<exists>ps ss. s = ps @ sub @ ss)"
proof (induction s)
  case Nil
  then show ?case by simp
next
  case (Cons c cs)
  show ?case
  proof
    assume "includesStr (c # cs) sub"
    then consider "prefix sub (c # cs)" | "includesStr cs sub" by auto
    then show "\<exists>ps ss. c # cs = ps @ sub @ ss"
    proof cases
      case 1
      then obtain zs where "c # cs = sub @ zs" by (auto simp add: prefix_def)
      then have "c # cs = [] @ sub @ zs" by simp
      then show ?thesis by blast
    next
      case 2
      with Cons.IH obtain ps ss where "cs = ps @ sub @ ss" by blast
      then have "c # cs = (c # ps) @ sub @ ss" by simp
      then show ?thesis by blast
    qed
  next
    assume "\<exists>ps ss. c # cs = ps @ sub @ ss"
    then obtain ps ss where e: "c # cs = ps @ sub @ ss" by blast
    show "includesStr (c # cs) sub"
    proof (cases ps)
      case Nil
      with e have "prefix sub (c # cs)" by (simp add: prefix_def)
      then show ?thesis by simp
    next
      case (Cons p ps')
      with e have "cs = ps' @ sub @ ss" by simp
      with Cons.IH have "includesStr cs sub" by blast
      then show ?thesis by simp
    qed
  qed
qed






section \<open>Facts about the cache store\<close>

lemma cache_persistToStorage [simp]: "cache (persistToStorage key entry c) = cache c"
  by (simp add: persistToStorage_def split: option.splits)

lemma cache_removeFromStorage [simp]: "cache (removeFromStorage key c) = cache c"
  by (simp add: removeFromStorage_def split: option.splits)

lemma generateKey_nonempty: "generateKey params \<noteq> []"
  by (simp add: generateKey_def)

lemma generateKey_includes_topicId: "includesStr (generateKey params) (topicId params)"
proof -
  have "\<exists>more. generateKey params =
       (typeString (type params) @ '':'' @ subjectId params @ '':'' @ gradeId params @ '':'')
       @ topicId params @ ('':'' @ join '':'' (subtopicId params # more))"
    by (simp add: generateKey_def) blast
  then show ?thesis unfolding includesStr_iff by blast
qed

lemma map_of_cache_set_entry:
  "map_of (cache (set_entry params d ttl now c)) (generateKey params) =
     Some \<lparr>data = d, timestamp = now,
           expiresAt = now + (case ttl of None \<Rightarrow> DEFAULT_TTL | Some t \<Rightarrow> t),
           accessCount = 0, lastAccessed = now\<rparr>"
  by (simp add: set_entry_def Let_def update_conv')

lemma length_delete_present:
  "distinct (map fst al) \<Longrightarrow> map_of al k = Some v \<Longrightarrow> length (AList.delete k al) + 1 = length al"
proof (induction al)
  case Nil
  then show ?case by simp
next
  case (Cons p al)
  obtain k' v' where p: "p = (k', v')" by (cases p)
  show ?case
  proof (cases "k' = k")
    case True
    with Cons.prems p have "k \<notin> fst ` set al" by simp
    then have "AList.delete k al = al" by simp
    with True p show ?thesis by simp
  next
    case False
    with Cons p show ?thesis by simp
  qed
qed








text \<open>\<open>invalidateTopic\<close> deletes the keys it collected, and the key of every entry of the
  topic is among them.\<close>

lemma map_of_fold_deleteKey:
  "map_of (cache (fold deleteKey ks c)) k = (if k \<in> set ks then None else map_of (cache c) k)"
  by (induction ks arbitrary: c) (auto simp add: deleteKey_def delete_conv')

lemma invalidateTopic_removes_topic:
  "map_of (cache (invalidateTopic (topicId params) None c)) (generateKey params) = None"
proof (cases "generateKey params \<in> fst ` set (cache c)")
  case True
  then have "generateKey params \<in> set (keysToDelete (topicId params) None c)"
    by (simp add: keysToDelete_def generateKey_includes_topicId)
  then show ?thesis by (simp add: invalidateTopic_def map_of_fold_deleteKey)
next
  case False
  then have "map_of (cache c) (generateKey params) = None"
    by (simp add: map_of_eq_None_iff)
  then show ?thesis by (simp add: invalidateTopic_def map_of_fold_deleteKey)
qed







section \<open>The cache store: claims\<close>

text \<open>
  Claim C9. For every key, payload and time-to-live \<open>t > 0\<close>, \<open>set\<close> followed immediately
  by \<open>get\<close> of the same key returns the payload. "Immediately" is any clock reading \<open>now'\<close>
  of the \<open>get\<close> from the reading \<open>now\<close> of the \<open>set\<close> up to \<open>now + t\<close>.
\<close>

theorem set_then_get:
  assumes "0 < t" and "now \<le> now'" and "now' \<le> now + t"
  shows "fst (get params now' (set_entry params d (Some t) now c)) = Some d"
  using assms
  by (simp add: get_def Let_def map_of_cache_set_entry processHit_def)

theorem set_then_get_witness:
  "(0::int) < 300000 \<and> (1000::int) \<le> 1000 \<and> (1000::int) \<le> 1000 + 300000
   \<and> fst (get exampleKey 1000 (set_entry exampleKey ''cards'' (Some 300000) 1000 emptyCache))
       = Some ''cards''"
  using set_then_get [of 300000 1000 1000 exampleKey "''cards''" emptyCache] by simp

text \<open>
  Claim C10. When \<open>get\<close> finds no entry in memory and the browser store holds an entry for
  the key that has not expired, \<open>get\<close> puts that entry into the in-memory map with
  \<open>accessCount\<close> increased by one and \<open>lastAccessed\<close> set to the clock reading, returns its
  payload and counts a hit; the miss counter and the browser store stay as they are.
\<close>

theorem get_loads_from_storage:
  assumes "map_of (cache c) (generateKey params) = None"
    and "localStorage c = Some items"
    and "map_of items (storageKey (generateKey params)) = Some e"
    and "\<not> now > expiresAt e"
  shows "get params now c =
           (Some (data e),
            c\<lparr>cache := AList.update (generateKey params)
                          (e\<lparr>accessCount := accessCount e + 1, lastAccessed := now\<rparr>) (cache c),
              stats_hits := stats_hits c + 1\<rparr>)"
  using assms
  by (simp add: get_def Let_def loadFromStorage_def processHit_def)

theorem get_loads_from_storage_witness:
  "map_of (cache reloadedCache) (generateKey exampleKey) = None
   \<and> localStorage reloadedCache
       = Some [(storageKey (generateKey exampleKey),
                \<lparr>data = ''cards'', timestamp = 0, expiresAt = 1800000,
                 accessCount = 2, lastAccessed = 500\<rparr>)]
   \<and> \<not> (1000::int) > 1800000
   \<and> get exampleKey 1000 reloadedCache =
       (Some ''cards'',
        reloadedCache\<lparr>cache := [(generateKey exampleKey,
                                   \<lparr>data = ''cards'', timestamp = 0, expiresAt = 1800000,
                                    accessCount = 3, lastAccessed = 1000\<rparr>)],
                       stats_hits := 1\<rparr>)"
  using get_loads_from_storage [of reloadedCache exampleKey
      "[(storageKey (generateKey exampleKey),
         \<lparr>data = ''cards'', timestamp = 0, expiresAt = 1800000,
          accessCount = 2, lastAccessed = 500\<rparr>)]"
      "\<lparr>data = ''cards'', timestamp = 0, expiresAt = 1800000, accessCount = 2, lastAccessed = 500\<rparr>"
      1000]
  by (simp add: reloadedCache_def)

text \<open>
  Claim C5, as stated: once \<open>now \<ge> expiresAt\<close> the next \<open>get\<close> returns absent and removes the
  entry. At \<open>now = expiresAt\<close> the code serves the entry: the entry written at time 0 with a
  time-to-live of 1000 expires at 1000, and \<open>get\<close> at 1000 is a hit that leaves it in place.
\<close>

theorem get_at_expiry_counterexample:
  "map_of (cache (set_entry exampleKey ''cards'' (Some 1000) 0 emptyCache)) (generateKey exampleKey)
     = Some \<lparr>data = ''cards'', timestamp = 0, expiresAt = 1000, accessCount = 0, lastAccessed = 0\<rparr>
   \<and> (1000::int) \<ge> 1000
   \<and> fst (get exampleKey 1000 (set_entry exampleKey ''cards'' (Some 1000) 0 emptyCache)) = Some ''cards''
   \<and> length (cache (snd (get exampleKey 1000 (set_entry exampleKey ''cards'' (Some 1000) 0 emptyCache)))) = 1"
  by (simp add: get_def set_entry_def emptyCache_def Let_def processHit_def persistToStorage_def
      MAX_ENTRIES_def)

text \<open>
  Claim C5, amended: once \<open>now > expiresAt\<close>, the next \<open>get\<close> for the key of an in-memory
  entry returns absent, removes the entry (the entry count of \<open>getStats\<close> goes down by one)
  and counts no hit; and whenever \<open>get\<close> returns a payload, it is the payload of an entry,
  in memory or in the browser store, with \<open>now \<le> expiresAt\<close>.
\<close>

theorem get_expired:
  "(\<forall>e. distinct (map fst (cache c)) \<and> map_of (cache c) (generateKey params) = Some e
         \<and> now > expiresAt e \<longrightarrow>
         fst (get params now c) = None
         \<and> map_of (cache (snd (get params now c))) (generateKey params) = None
         \<and> totalEntries (getStats jsonLength (snd (get params now c))) + 1
             = totalEntries (getStats jsonLength c)
         \<and> stats_hits (snd (get params now c)) = stats_hits c)
   \<and> (\<forall>d. fst (get params now c) = Some d \<longrightarrow>
         (\<exists>e. data e = d \<and> \<not> now > expiresAt e
            \<and> (map_of (cache c) (generateKey params) = Some e
               \<or> (map_of (cache c) (generateKey params) = None
                   \<and> (\<exists>items. localStorage c = Some items
                         \<and> map_of items (storageKey (generateKey params)) = Some e)))))"
proof (intro conjI allI impI)
  fix e
  assume a: "distinct (map fst (cache c)) \<and> map_of (cache c) (generateKey params) = Some e
         \<and> now > expiresAt e"
  then have g: "get params now c =
      (None, (removeFromStorage (generateKey params)
                (c\<lparr>cache := AList.delete (generateKey params) (cache c)\<rparr>))
               \<lparr>stats_misses := stats_misses c + 1\<rparr>)"
    by (simp add: get_def Let_def)
  show "fst (get params now c) = None" by (simp add: g)
  show "map_of (cache (snd (get params now c))) (generateKey params) = None"
    by (simp add: g delete_conv')
  show "totalEntries (getStats jsonLength (snd (get params now c))) + 1
             = totalEntries (getStats jsonLength c)"
    using a length_delete_present [of "cache c" "generateKey params" e]
    by (simp add: g getStats_def Let_def)
  show "stats_hits (snd (get params now c)) = stats_hits c"
    by (simp add: g removeFromStorage_def split: option.splits)
next
  fix d
  assume "fst (get params now c) = Some d"
  then show "\<exists>e. data e = d \<and> \<not> now > expiresAt e
            \<and> (map_of (cache c) (generateKey params) = Some e
               \<or> (map_of (cache c) (generateKey params) = None
                   \<and> (\<exists>items. localStorage c = Some items
                         \<and> map_of items (storageKey (generateKey params)) = Some e)))"
    by (auto simp add: get_def Let_def loadFromStorage_def processHit_def
        split: option.splits if_splits prod.splits)
qed

theorem get_expired_witness:
  "distinct (map fst (cache (set_entry exampleKey ''cards'' (Some 1000) 0 emptyCache)))
   \<and> map_of (cache (set_entry exampleKey ''cards'' (Some 1000) 0 emptyCache)) (generateKey exampleKey)
       = Some \<lparr>data = ''cards'', timestamp = 0, expiresAt = 1000, accessCount = 0, lastAccessed = 0\<rparr>
   \<and> (1001::int) > 1000
   \<and> fst (get exampleKey 1001 (set_entry exampleKey ''cards'' (Some 1000) 0 emptyCache)) = None
   \<and> totalEntries (getStats length
        (snd (get exampleKey 1001 (set_entry exampleKey ''cards'' (Some 1000) 0 emptyCache)))) + 1
       = totalEntries (getStats length (set_entry exampleKey ''cards'' (Some 1000) 0 emptyCache))
   \<and> fst (get exampleKey 500 (set_entry exampleKey ''cards'' (Some 1000) 0 emptyCache)) = Some ''cards''"
proof -
  let ?c = "set_entry exampleKey ''cards'' (Some 1000) 0 emptyCache"
  let ?e = "\<lparr>data = ''cards'', timestamp = 0, expiresAt = 1000, accessCount = 0, lastAccessed = (0::int)\<rparr>"
  have c: "cache ?c = [(generateKey exampleKey, ?e)]"
    by (simp add: set_entry_def emptyCache_def Let_def MAX_ENTRIES_def)
  have h: "distinct (map fst (cache ?c)) \<and> map_of (cache ?c) (generateKey exampleKey) = Some ?e
           \<and> 1001 > expiresAt ?e"
    by (simp add: c)
  have live: "fst (get exampleKey 500 ?c) = Some ''cards''"
    by (simp add: get_def Let_def c processHit_def)
  from get_expired [of ?c exampleKey 1001 length] h
  have "fst (get exampleKey 1001 ?c) = None
        \<and> totalEntries (getStats length (snd (get exampleKey 1001 ?c))) + 1
            = totalEntries (getStats length ?c)"
    by blast
  with h live show ?thesis by simp
qed






text \<open>
  Claim C3: \<open>invalidateTopic\<close> removes the entries of the topic and no other. The code
  matches the topic identifier anywhere in the key text: invalidating the topic \<open>data\<close>
  removes the entry of the topic \<open>numbers\<close> whose subtopic is \<open>data-tables\<close>.
\<close>

theorem invalidateTopic_substring_match:
  "topicId otherKey = ''numbers''
   \<and> map fst (cache (set_entry otherKey ''cards'' None 0 emptyCache))
        = [''content:mathematics:grade-1:numbers:data-tables:5'']
   \<and> cache (invalidateTopic ''data'' None (set_entry otherKey ''cards'' None 0 emptyCache)) = []"
  by code_simp

section \<open>Facts about the lesson page\<close>


section \<open>The lesson page: claims\<close>

text \<open>
  Claim C2, as stated: an advance at the last card moves to the next state with the cursor
  reset to 0. From \<open>exam-review\<close> at its last card the code moves to \<open>completion\<close> and
  leaves the cursor where it was: with four questions the cursor stays at 3.
\<close>

theorem handleNextCard_reset_counterexample:
  "contentState (quizPage\<lparr>contentState := st_exam_review\<rparr>) = st_exam_review
   \<and> currentCardIndex (quizPage\<lparr>contentState := st_exam_review\<rparr>) = 3
   \<and> currentContentLength (quizPage\<lparr>contentState := st_exam_review\<rparr>) = 4
   \<and> contentState (handleNextCard (quizPage\<lparr>contentState := st_exam_review\<rparr>)) = st_completion
   \<and> currentCardIndex (handleNextCard (quizPage\<lparr>contentState := st_exam_review\<rparr>)) = 3
   \<and> currentCardIndex (handleNextCard (quizPage\<lparr>contentState := st_exam_review\<rparr>)) \<noteq> 0"
  by (simp add: quizPage_def handleNextCard_def currentContentLength_def exampleQuiz_def)

text \<open>
  Claim C2, amended: for every page, one advance increments the cursor and changes nothing
  else when the cursor is before the last card; otherwise it moves to the next state of the
  fixed order intro, content, thank-you, main-quiz, main-quiz-review, exam-practice,
  exam-review, completion. The cursor is reset to 0 on every such move into a state that
  shows cards, that is every move but the one into \<open>completion\<close>; entering \<open>main-quiz\<close> or
  \<open>exam-practice\<close> clears the recorded answers; in \<open>completion\<close> an advance changes nothing.
\<close>

theorem handleNextCard_forward:
  "(int (currentCardIndex p) < int (currentContentLength p) - 1 \<longrightarrow>
      handleNextCard p = p\<lparr>currentCardIndex := currentCardIndex p + 1\<rparr>)
   \<and> (\<not> int (currentCardIndex p) < int (currentContentLength p) - 1 \<longrightarrow>
        contentState (handleNextCard p) = spec_next (contentState p)
        \<and> (contentState p \<noteq> st_exam_review \<and> contentState p \<noteq> st_completion \<longrightarrow>
             currentCardIndex (handleNextCard p) = 0)
        \<and> (contentState p = st_thank_you \<or> contentState p = st_main_quiz_review \<longrightarrow>
             quizAnswers (handleNextCard p) = []))
   \<and> (contentState p = st_completion \<longrightarrow> handleNextCard p = p)"
  by (cases "contentState p")
     (simp_all add: handleNextCard_def currentContentLength_def evaluateQuiz_def)

theorem handleNextCard_forward_witness:
  "int (currentCardIndex (quizPage\<lparr>currentCardIndex := 0\<rparr>))
      < int (currentContentLength (quizPage\<lparr>currentCardIndex := 0\<rparr>)) - 1
   \<and> handleNextCard (quizPage\<lparr>currentCardIndex := 0\<rparr>) = quizPage\<lparr>currentCardIndex := 1\<rparr>
   \<and> \<not> int (currentCardIndex (quizPage\<lparr>contentState := st_thank_you, currentCardIndex := 0\<rparr>))
      < int (currentContentLength (quizPage\<lparr>contentState := st_thank_you, currentCardIndex := 0\<rparr>)) - 1
   \<and> contentState (handleNextCard (quizPage\<lparr>contentState := st_thank_you, currentCardIndex := 0\<rparr>))
        = st_main_quiz
   \<and> currentCardIndex (handleNextCard (quizPage\<lparr>contentState := st_thank_you, currentCardIndex := 0\<rparr>)) = 0
   \<and> quizAnswers (handleNextCard (quizPage\<lparr>contentState := st_thank_you, currentCardIndex := 0\<rparr>)) = []
   \<and> handleNextCard (quizPage\<lparr>contentState := st_completion\<rparr>) = quizPage\<lparr>contentState := st_completion\<rparr>"
  using handleNextCard_forward [of "quizPage\<lparr>currentCardIndex := 0\<rparr>"]
    handleNextCard_forward [of "quizPage\<lparr>contentState := st_thank_you, currentCardIndex := 0\<rparr>"]
    handleNextCard_forward [of "quizPage\<lparr>contentState := st_completion\<rparr>"]
  by (simp add: quizPage_def currentContentLength_def exampleQuiz_def)



section \<open>Facts about the orchestrator\<close>

lemma generateRAGEnhancedContentCards_returns:
  "\<exists>cards. fst (generateRAGEnhancedContentCards env stid tid sid gid n w) = Inr cards"
  by (simp add: generateRAGEnhancedContentCards_def ragCardsTry_def Let_def split: prod.splits)

lemma contentTry_returns:
  "\<exists>cards. fst (contentTry env now later stid tid sid gid n w) = Inr cards"
proof -
  obtain r c1 where g: "getCachedContent tid stid sid gid (Some n) now (contentCache w) = (r, c1)"
    by (cases "getCachedContent tid stid sid gid (Some n) now (contentCache w)")
  show ?thesis
  proof (cases r)
    case (Some cachedContent)
    with g show ?thesis by (simp add: contentTry_def)
  next
    case None
    show ?thesis
    proof (cases "\<not> available (checkAiServiceStatus env) \<or> \<not> modelLoaded (checkAiServiceStatus env)")
      case True
      with g None show ?thesis by (simp add: contentTry_def Let_def)
    next
      case False
      obtain cs w2 where c: "checkChromaDBStatus env (w\<lparr>contentCache := c1\<rparr>) = (cs, w2)"
        by (cases "checkChromaDBStatus env (w\<lparr>contentCache := c1\<rparr>)")
      obtain cards where "fst (generateRAGEnhancedContentCards env stid tid sid gid n w2) = Inr cards"
        using generateRAGEnhancedContentCards_returns by blast
      then obtain w3 where "generateRAGEnhancedContentCards env stid tid sid gid n w2 = (Inr cards, w3)"
        by (cases "generateRAGEnhancedContentCards env stid tid sid gid n w2") simp
      with g None False c show ?thesis
        by (simp add: contentTry_def Let_def)
    qed
  qed
qed

lemma checkHealth_throws_unavailable:
  "checkHealth env = Inl err \<Longrightarrow> \<not> available (checkAiServiceStatus env)"
  by (simp add: checkAiServiceStatus_def)

lemma getFallbackContent_length: "length (getFallbackContent stid tid sid) = 3"
  by (simp add: getFallbackContent_def)

lemma distanceOr1_nonneg:
  "(\<forall>x. distance doc = Some x \<longrightarrow> 0 \<le> x) \<Longrightarrow> 0 \<le> distanceOr1 doc"
  by (simp add: distanceOr1_def split: option.splits)

lemma retrieveContext_documents:
  assumes "\<forall>req d docs. searchCurriculum env req = Inr d \<longrightarrow> search_documents d = Some docs \<longrightarrow>
             (\<forall>doc \<in> set docs. \<forall>x. distance doc = Some x \<longrightarrow> 0 \<le> x)"
  shows "\<forall>doc \<in> set (documents (fst (retrieveContext env q sid gid tid nResults w))).
           0 \<le> distanceOr1 doc"
proof -
  let ?req = "\<lparr>query = q, subject = sid, grade = gid, n_results = nResults\<rparr>"
  show ?thesis
  proof (cases "searchCurriculum env ?req")
    case (Inl err)
    then show ?thesis by (simp add: retrieveContext_def Let_def getEmptyContext_def)
  next
    case (Inr d)
    show ?thesis
    proof (cases "search_documents d")
      case None
      with Inr show ?thesis by (simp add: retrieveContext_def Let_def getEmptyContext_def)
    next
      case (Some docs)
      with assms Inr have "\<forall>doc \<in> set docs. 0 \<le> distanceOr1 doc"
        using distanceOr1_nonneg by blast
      with Inr Some show ?thesis
        by (simp add: retrieveContext_def Let_def getEmptyContext_def)
    qed
  qed
qed

lemma validateContent_alignment:
  assumes "\<forall>req d docs. searchCurriculum env req = Inr d \<longrightarrow> search_documents d = Some docs \<longrightarrow>
             (\<forall>doc \<in> set docs. \<forall>x. distance doc = Some x \<longrightarrow> 0 \<le> x)"
  shows "0 \<le> curriculumAlignment (fst (validateContent env aiContent sid gid tid w))
       \<and> curriculumAlignment (fst (validateContent env aiContent sid gid tid w)) \<le> 1"
proof -
  obtain ctx w1 where r: "retrieveContext env (take 200 aiContent) sid gid (Some tid) 3 w = (ctx, w1)"
    by (cases "retrieveContext env (take 200 aiContent) sid gid (Some tid) 3 w")
  from retrieveContext_documents [OF assms, of "take 200 aiContent" sid gid "Some tid" 3 w] r
  have "\<forall>doc \<in> set (documents ctx). 0 \<le> distanceOr1 doc" by simp
  then have "0 \<le> sum_list (map distanceOr1 (documents ctx))"
    by (intro sum_list_nonneg) auto
  then have "0 \<le> sum_list (map distanceOr1 (documents ctx)) / of_nat (length (documents ctx))"
    by simp
  then show ?thesis
    by (simp add: validateContent_def r Let_def)
qed

lemma validateCards_validated:
  assumes "\<forall>req d docs. searchCurriculum env req = Inr d \<longrightarrow> search_documents d = Some docs \<longrightarrow>
             (\<forall>doc \<in> set docs. \<forall>x. distance doc = Some x \<longrightarrow> 0 \<le> x)"
  shows "\<forall>c \<in> set (fst (validateCards env sid gid tid ctx cards w)).
           \<exists>v. validation c = Some v \<and> 0 \<le> curriculumAlignment v \<and> curriculumAlignment v \<le> 1"
proof (induction cards arbitrary: w)
  case Nil
  then show ?case by simp
next
  case (Cons contentCard rest)
  obtain v w1 where v: "validateContent env (body contentCard) sid gid tid w = (v, w1)"
    by (cases "validateContent env (body contentCard) sid gid tid w")
  obtain validated w2 where r: "validateCards env sid gid tid ctx rest w1 = (validated, w2)"
    by (cases "validateCards env sid gid tid ctx rest w1")
  from validateContent_alignment [OF assms, of "body contentCard" sid gid tid w] v
  have "0 \<le> curriculumAlignment v \<and> curriculumAlignment v \<le> 1" by simp
  moreover from Cons.IH [of w1] r
  have "\<forall>c \<in> set validated.
           \<exists>v. validation c = Some v \<and> 0 \<le> curriculumAlignment v \<and> curriculumAlignment v \<le> 1"
    by simp
  ultimately show ?case by (simp add: v r)
qed

lemma checkChromaDBStatus_world:
  "fst (checkChromaDBStatus env w) = fst (checkChromaDBStatus env w')"
  by (simp add: checkChromaDBStatus_def testConnection_def Let_def split: sum.splits)

lemma freshWorld_miss:
  "fst (getCachedContent ''numbers'' ''counting'' ''mathematics'' ''grade-1'' (Some 5) 0
          (contentCache freshWorld)) = None"
  by (simp add: getCachedContent_def get_def freshWorld_def emptyCache_def loadFromStorage_def
      Let_def)

section \<open>The orchestrator: claims\<close>

text \<open>
  Claim C1, as stated: for every content request, when the generation service is
  unavailable the result is the static fallback bundle. A request whose bundle is still in
  the cache is answered from the cache before the service is asked: after a first request
  served by the healthy services, the same request with the services down returns the cached
  generated bundle, not the fallback bundle.
\<close>

theorem cached_bundle_when_unavailable_counterexample:
  "checkHealth downServices = Inl FetchError
   \<and> \<not> available (checkAiServiceStatus downServices)
   \<and> fst (getAIContentForSubtopic downServices 1000 1010 ''counting'' ''numbers'' ''mathematics''
            ''grade-1'' None
            (snd (getAIContentForSubtopic healthyServices 0 10 ''counting'' ''numbers''
                    ''mathematics'' ''grade-1'' None freshWorld)))
       = fst (getAIContentForSubtopic healthyServices 0 10 ''counting'' ''numbers''
                    ''mathematics'' ''grade-1'' None freshWorld)
   \<and> fst (getAIContentForSubtopic downServices 1000 1010 ''counting'' ''numbers'' ''mathematics''
            ''grade-1'' None
            (snd (getAIContentForSubtopic healthyServices 0 10 ''counting'' ''numbers''
                    ''mathematics'' ''grade-1'' None freshWorld)))
       \<noteq> Inr (getFallbackContent ''counting'' ''numbers'' ''mathematics'')"
  by code_simp

text \<open>
  Claim C1, amended: \<open>getAIContentForSubtopic\<close> never throws, whatever the services answer;
  and for every content request that misses the cache, if the health check throws or the
  generation service reports unavailable or not loaded, the result is the static fallback
  bundle, which is not empty.
\<close>

theorem getAIContent_fallback:
  "(\<exists>cards. fst (getAIContentForSubtopic env now later stid tid sid gid numCardsArg w) = Inr cards)
   \<and> (fst (getCachedContent tid stid sid gid
              (Some (case numCardsArg of None \<Rightarrow> 5 | Some k \<Rightarrow> k)) now (contentCache w)) = None
        \<and> ((\<exists>err. checkHealth env = Inl err) \<or> \<not> available (checkAiServiceStatus env)
             \<or> \<not> modelLoaded (checkAiServiceStatus env))
      \<longrightarrow> fst (getAIContentForSubtopic env now later stid tid sid gid numCardsArg w)
            = Inr (getFallbackContent stid tid sid)
          \<and> getFallbackContent stid tid sid \<noteq> [])"
proof (intro conjI impI)
  define n where "n = (case numCardsArg of None \<Rightarrow> (5::nat) | Some k \<Rightarrow> k)"
  obtain cards where "fst (contentTry env now later stid tid sid gid n w) = Inr cards"
    using contentTry_returns by blast
  then show "\<exists>cards. fst (getAIContentForSubtopic env now later stid tid sid gid numCardsArg w) = Inr cards"
    by (cases "contentTry env now later stid tid sid gid n w")
       (simp add: getAIContentForSubtopic_def n_def)
next
  define n where "n = (case numCardsArg of None \<Rightarrow> (5::nat) | Some k \<Rightarrow> k)"
  assume a: "fst (getCachedContent tid stid sid gid
              (Some (case numCardsArg of None \<Rightarrow> 5 | Some k \<Rightarrow> k)) now (contentCache w)) = None
        \<and> ((\<exists>err. checkHealth env = Inl err) \<or> \<not> available (checkAiServiceStatus env)
             \<or> \<not> modelLoaded (checkAiServiceStatus env))"
  then have down: "\<not> available (checkAiServiceStatus env) \<or> \<not> modelLoaded (checkAiServiceStatus env)"
    using checkHealth_throws_unavailable by blast
  from a obtain c1 where
    g: "getCachedContent tid stid sid gid (Some n) now (contentCache w) = (None, c1)"
    by (cases "getCachedContent tid stid sid gid (Some n) now (contentCache w)") (simp add: n_def)
  from g down have "fst (contentTry env now later stid tid sid gid n w)
      = Inr (getFallbackContent stid tid sid)"
    by (simp add: contentTry_def Let_def)
  then show "fst (getAIContentForSubtopic env now later stid tid sid gid numCardsArg w)
            = Inr (getFallbackContent stid tid sid)"
    by (cases "contentTry env now later stid tid sid gid n w")
       (simp add: getAIContentForSubtopic_def n_def)
  show "getFallbackContent stid tid sid \<noteq> []"
    using getFallbackContent_length [of stid tid sid] by auto
qed

theorem getAIContent_fallback_witness:
  "fst (getCachedContent ''numbers'' ''counting'' ''mathematics'' ''grade-1'' (Some 5) 0
          (contentCache freshWorld)) = None
   \<and> checkHealth downServices = Inl FetchError
   \<and> fst (getAIContentForSubtopic downServices 0 10 ''counting'' ''numbers'' ''mathematics''
            ''grade-1'' None freshWorld)
       = Inr (getFallbackContent ''counting'' ''numbers'' ''mathematics'')
   \<and> getFallbackContent ''counting'' ''numbers'' ''mathematics'' \<noteq> []"
proof -
  have h: "checkHealth downServices = Inl FetchError" by (simp add: downServices_def)
  from getAIContent_fallback [of downServices 0 10 "''counting''" "''numbers''" "''mathematics''"
      "''grade-1''" None freshWorld] freshWorld_miss h
  have "fst (getAIContentForSubtopic downServices 0 10 ''counting'' ''numbers'' ''mathematics''
            ''grade-1'' None freshWorld)
       = Inr (getFallbackContent ''counting'' ''numbers'' ''mathematics'')
     \<and> getFallbackContent ''counting'' ''numbers'' ''mathematics'' \<noteq> []"
    by simp
  with freshWorld_miss h show ?thesis by blast
qed

text \<open>
  Claim C6, as stated: when the generation service is healthy and the retrieval service
  reports an existing collection, every returned card carries a validation. A request whose
  bundle is still in the cache is answered from the cache: after a first request served
  while the services were down, the same request with both services healthy returns the
  cached fallback bundle, whose cards carry no validation.
\<close>

theorem cached_fallback_when_healthy_counterexample:
  "available (checkAiServiceStatus healthyServices)
   \<and> modelLoaded (checkAiServiceStatus healthyServices)
   \<and> chroma_available (fst (checkChromaDBStatus healthyServices freshWorld))
   \<and> collectionExists (fst (checkChromaDBStatus healthyServices freshWorld))
   \<and> fst (getAIContentForSubtopic healthyServices 1000 1010 ''counting'' ''numbers'' ''mathematics''
            ''grade-1'' None
            (snd (getAIContentForSubtopic downServices 0 10 ''counting'' ''numbers''
                    ''mathematics'' ''grade-1'' None freshWorld)))
       = Inr (getFallbackContent ''counting'' ''numbers'' ''mathematics'')
   \<and> map validation (getFallbackContent ''counting'' ''numbers'' ''mathematics'')
       = [None, None, None]"
  by code_simp

text \<open>
  Claim C6, amended: for every content request that misses the cache, when the generation
  service is healthy (available, model loaded) and the retrieval service reports an
  existing collection, every card returned by \<open>getAIContentForSubtopic\<close> carries a
  validation whose \<open>curriculumAlignment\<close> lies in [0, 1], if the distances of the retrieved
  documents are not negative.
\<close>

theorem getAIContent_validated:
  assumes miss: "fst (getCachedContent tid stid sid gid
                   (Some (case numCardsArg of None \<Rightarrow> 5 | Some k \<Rightarrow> k)) now (contentCache w)) = None"
    and healthy: "available (checkAiServiceStatus env) \<and> modelLoaded (checkAiServiceStatus env)"
    and chroma: "chroma_available (fst (checkChromaDBStatus env w))
                 \<and> collectionExists (fst (checkChromaDBStatus env w))"
    and nonneg: "\<forall>req d docs. searchCurriculum env req = Inr d \<longrightarrow> search_documents d = Some docs \<longrightarrow>
                   (\<forall>doc \<in> set docs. \<forall>x. distance doc = Some x \<longrightarrow> 0 \<le> x)"
  shows "\<exists>cards. fst (getAIContentForSubtopic env now later stid tid sid gid numCardsArg w) = Inr cards
           \<and> (\<forall>c \<in> set cards. \<exists>v. validation c = Some v
                  \<and> 0 \<le> curriculumAlignment v \<and> curriculumAlignment v \<le> 1)"
proof -
  define n where "n = (case numCardsArg of None \<Rightarrow> (5::nat) | Some k \<Rightarrow> k)"
  from miss obtain c1 where
    g: "getCachedContent tid stid sid gid (Some n) now (contentCache w) = (None, c1)"
    by (cases "getCachedContent tid stid sid gid (Some n) now (contentCache w)") (simp add: n_def)
  obtain cs w2 where c: "checkChromaDBStatus env (w\<lparr>contentCache := c1\<rparr>) = (cs, w2)"
    by (cases "checkChromaDBStatus env (w\<lparr>contentCache := c1\<rparr>)")
  from chroma checkChromaDBStatus_world [of env w "w\<lparr>contentCache := c1\<rparr>"] c
  have cs: "chroma_available cs \<and> collectionExists cs" by simp
  define prompt where "prompt = ''Generate '' @ toString n @ '' educational content cards for ''
                          @ formatTitle stid @ '' in '' @ formatTitle sid @ '' for '' @ gid"
  obtain ragResult w3 where rr: "generateRAGEnhancedContent env prompt sid gid tid stid w2 = (ragResult, w3)"
    by (cases "generateRAGEnhancedContent env prompt sid gid tid stid w2")
  obtain cards w4 where vc: "validateCards env sid gid tid (rag_context ragResult)
      (generateContentForSubtopic env tid stid sid gid n) w3 = (cards, w4)"
    by (cases "validateCards env sid gid tid (rag_context ragResult)
      (generateContentForSubtopic env tid stid sid gid n) w3")
  have rag: "generateRAGEnhancedContentCards env stid tid sid gid n w2 = (Inr cards, w4)"
    using rr vc by (simp add: generateRAGEnhancedContentCards_def ragCardsTry_def Let_def prompt_def)
  have "fst (contentTry env now later stid tid sid gid n w) = Inr cards"
    using g healthy c cs rag by (simp add: contentTry_def Let_def)
  then have res: "fst (getAIContentForSubtopic env now later stid tid sid gid numCardsArg w) = Inr cards"
    by (cases "contentTry env now later stid tid sid gid n w")
       (simp add: getAIContentForSubtopic_def n_def)
  from validateCards_validated [OF nonneg, of sid gid tid "rag_context ragResult"
      "generateContentForSubtopic env tid stid sid gid n" w3] vc
  have "\<forall>c \<in> set cards. \<exists>v. validation c = Some v
                  \<and> 0 \<le> curriculumAlignment v \<and> curriculumAlignment v \<le> 1"
    by simp
  with res show ?thesis by blast
qed

theorem getAIContent_validated_witness:
  "fst (getCachedContent ''numbers'' ''counting'' ''mathematics'' ''grade-1'' (Some 5) 0
          (contentCache freshWorld)) = None
   \<and> available (checkAiServiceStatus healthyServices)
   \<and> modelLoaded (checkAiServiceStatus healthyServices)
   \<and> chroma_available (fst (checkChromaDBStatus healthyServices freshWorld))
   \<and> collectionExists (fst (checkChromaDBStatus healthyServices freshWorld))
   \<and> (\<exists>cards. fst (getAIContentForSubtopic healthyServices 0 10 ''counting'' ''numbers''
                      ''mathematics'' ''grade-1'' None freshWorld) = Inr cards
          \<and> list_all (\<lambda>c. \<exists>v. validation c = Some v
                           \<and> 0 \<le> curriculumAlignment v \<and> curriculumAlignment v \<le> 1) cards)"
proof -
  have h1: "fst (getCachedContent ''numbers'' ''counting'' ''mathematics'' ''grade-1''
                   (Some (case None of None \<Rightarrow> 5 | Some k \<Rightarrow> k)) 0
                   (contentCache freshWorld)) = None"
    using freshWorld_miss by simp
  have h2: "available (checkAiServiceStatus healthyServices)
            \<and> modelLoaded (checkAiServiceStatus healthyServices)"
    by (simp add: checkAiServiceStatus_def healthyServices_def)
  have h3: "chroma_available (fst (checkChromaDBStatus healthyServices freshWorld))
            \<and> collectionExists (fst (checkChromaDBStatus healthyServices freshWorld))"
    by (simp add: checkChromaDBStatus_def testConnection_def getCollectionStats_def
        healthyServices_def Let_def)
  have h4: "\<forall>req d docs. searchCurriculum healthyServices req = Inr d \<longrightarrow>
              search_documents d = Some docs \<longrightarrow>
              (\<forall>doc \<in> set docs. \<forall>x. distance doc = Some x \<longrightarrow> 0 \<le> x)"
    by (auto simp add: healthyServices_def)
  from getAIContent_validated [OF h1 h2 h3 h4, of 10]
  have "\<exists>cards. fst (getAIContentForSubtopic healthyServices 0 10 ''counting'' ''numbers''
                      ''mathematics'' ''grade-1'' None freshWorld) = Inr cards
          \<and> list_all (\<lambda>c. \<exists>v. validation c = Some v
                           \<and> 0 \<le> curriculumAlignment v \<and> curriculumAlignment v \<le> 1) cards"
    by (simp add: list_all_iff)
  with freshWorld_miss h2 h3 show ?thesis by blast
qed

end
